theory Spec2Isabelle
  imports Complex_Main
begin

section \<open>Windhager climate entities: a shallow embedding of climate.py\<close>

text \<open>
  The module \<^verbatim>\<open>custom_components/windhager/climate.py\<close> defines two entity classes,
  \<^verbatim>\<open>WindhagerThermostatClimate\<close> (readings corrected by the bias register) and
  \<^verbatim>\<open>WindhagerThermostatClimateWithoutBias\<close>. Each is a stateless view of the
  coordinator's snapshot \<^verbatim>\<open>coordinator.data\<close>, a dict whose entry \<^verbatim>\<open>"oids"\<close> maps register
  paths to string values, and each translates commands into calls of
  \<^verbatim>\<open>client.update\<close> and \<^verbatim>\<open>coordinator.async_request_refresh\<close>.
\<close>

subsection \<open>Python values, exceptions and built-in conversions\<close>

text \<open>The exceptions that the expressions of the module can raise.\<close>

datatype exn = ValueError | TypeError | IndexError | AttributeError | OverflowError

text \<open>
  What \<^verbatim>\<open>dict.get\<close> hands to \<^verbatim>\<open>int(...)\<close> and \<^verbatim>\<open>float(...)\<close>: a register string, the
  integer default \<^verbatim>\<open>0\<close>, or \<^verbatim>\<open>None\<close> when the lookup has no default.
\<close>

datatype pyval = PStr string | PInt int | PNone

text \<open>
  The conversions \<^verbatim>\<open>int(str)\<close>, \<^verbatim>\<open>float(str)\<close>, \<^verbatim>\<open>float(int)\<close>, \<^verbatim>\<open>str(float)\<close> and the
  subtraction of floats belong to the Python interpreter, not to this module (their
  exact behaviour depends on binary64 rounding and on interpreter settings), so the
  model takes them as parameters: \<open>'f\<close> is the type of float values, and \<open>None\<close> is the
  failure of a conversion (\<^verbatim>\<open>ValueError\<close> for a string, \<^verbatim>\<open>OverflowError\<close> for an integer).
\<close>

record 'f py_builtins =
  int_of_str :: "string \<Rightarrow> int option"
  float_of_str :: "string \<Rightarrow> 'f option"
  float_of_int :: "int \<Rightarrow> 'f option"
  float_sub :: "'f \<Rightarrow> 'f \<Rightarrow> 'f"
  str_of_float :: "'f \<Rightarrow> string"

text \<open>\<^verbatim>\<open>int(v)\<close>: an int is returned as it is, a string is parsed, \<^verbatim>\<open>None\<close> is a type error.\<close>

definition py_int :: "'f py_builtins \<Rightarrow> pyval \<Rightarrow> exn + int" where
  "py_int B v =
     (case v of
        PInt n \<Rightarrow> Inr n
      | PStr s \<Rightarrow> (case int_of_str B s of None \<Rightarrow> Inl ValueError | Some n \<Rightarrow> Inr n)
      | PNone \<Rightarrow> Inl TypeError)"

text \<open>\<^verbatim>\<open>float(v)\<close>.\<close>

definition py_float :: "'f py_builtins \<Rightarrow> pyval \<Rightarrow> exn + 'f" where
  "py_float B v =
     (case v of
        PStr s \<Rightarrow> (case float_of_str B s of None \<Rightarrow> Inl ValueError | Some x \<Rightarrow> Inr x)
      | PInt n \<Rightarrow> (case float_of_int B n of None \<Rightarrow> Inl OverflowError | Some x \<Rightarrow> Inr x)
      | PNone \<Rightarrow> Inl TypeError)"

text \<open>\<^verbatim>\<open>str(n)\<close> for an integer: its decimal digits, with a minus sign when negative.\<close>

definition digit_char :: "nat \<Rightarrow> char" where
  "digit_char d = char_of (48 + d)"

fun nat_digits :: "nat \<Rightarrow> nat \<Rightarrow> string" where
  "nat_digits 0 n = []"
| "nat_digits (Suc fuel) n =
     (if n < 10 then [digit_char n]
      else nat_digits fuel (n div 10) @ [digit_char (n mod 10)])"

definition py_str_int :: "int \<Rightarrow> string" where
  "py_str_int i =
     (if i < 0 then CHR ''-'' # nat_digits (Suc (nat (- i))) (nat (- i))
      else nat_digits (Suc (nat i)) (nat i))"

text \<open>
  \<^verbatim>\<open>xs[i]\<close> on a list: a negative index counts from the end, an index out of range
  raises \<^verbatim>\<open>IndexError\<close>.
\<close>

definition py_getitem :: "'a list \<Rightarrow> int \<Rightarrow> exn + 'a" where
  "py_getitem xs i =
     (if 0 \<le> i \<and> i < int (length xs) then Inr (xs ! nat i)
      else if - int (length xs) \<le> i \<and> i < 0 then Inr (xs ! nat (int (length xs) + i))
      else Inl IndexError)"

text \<open>\<^verbatim>\<open>xs.index(x)\<close>: the first position of \<open>x\<close>, \<^verbatim>\<open>ValueError\<close> when there is none.\<close>

fun py_index :: "'a list \<Rightarrow> 'a \<Rightarrow> exn + nat" where
  "py_index [] x = Inl ValueError"
| "py_index (y # ys) x =
     (if y = x then Inr 0
      else (case py_index ys x of Inl e \<Rightarrow> Inl e | Inr k \<Rightarrow> Inr (Suc k)))"

subsection \<open>The coordinator's snapshot, the entity, the outside world\<close>

type_synonym oid_table = "string \<rightharpoonup> string"

text \<open>\<^verbatim>\<open>coordinator.data\<close>: the entry \<^verbatim>\<open>"oids"\<close> may be missing from the dict.\<close>

record coordinator_data =
  oids :: "oid_table option"

text \<open>\<^verbatim>\<open>d.get(key, default)\<close> and \<^verbatim>\<open>d.get(key)\<close> on the register table.\<close>

definition dict_get :: "oid_table \<Rightarrow> string \<Rightarrow> pyval \<Rightarrow> pyval" where
  "dict_get m k dflt = (case m k of None \<Rightarrow> dflt | Some s \<Rightarrow> PStr s)"

text \<open>\<^verbatim>\<open>self.coordinator.data.get("oids", {})\<close>.\<close>

definition oids_or_empty :: "coordinator_data \<Rightarrow> oid_table" where
  "oids_or_empty d = (case oids d of None \<Rightarrow> Map.empty | Some m \<Rightarrow> m)"

text \<open>The entries of \<^verbatim>\<open>deviceInfo\<close> that the constructors read.\<close>

record device_info =
  di_id :: string
  di_name :: string
  di_prefix :: string
  di_device_id :: string
  di_device_name :: string

text \<open>The attributes \<^verbatim>\<open>_id\<close>, \<^verbatim>\<open>_name\<close>, \<^verbatim>\<open>_prefix\<close> and \<^verbatim>\<open>_preset_modes\<close> of an entity.\<close>

record entity =
  ent_id :: string
  ent_name :: string
  ent_prefix :: string
  ent_preset_modes :: "string list"

text \<open>\<^verbatim>\<open>WindhagerThermostatClimate.__init__\<close> (lines 64 to 87).\<close>

definition climate_init :: "device_info \<Rightarrow> entity" where
  "climate_init di =
     \<lparr>ent_id = di_id di, ent_name = di_name di, ent_prefix = di_prefix di,
      ent_preset_modes = [''0'', ''1'', ''2'', ''3'', ''4'', ''5'', ''6'', ''7'']\<rparr>"

text \<open>\<^verbatim>\<open>WindhagerThermostatClimateWithoutBias.__init__\<close> (lines 242 to 265).\<close>

definition climate_nobias_init :: "device_info \<Rightarrow> entity" where
  "climate_nobias_init di =
     \<lparr>ent_id = di_id di @ ''_nobias'', ent_name = di_name di @ '' without bias'',
      ent_prefix = di_prefix di,
      ent_preset_modes = [''0'', ''1'', ''2'', ''3'', ''4'', ''5'', ''6'', ''7'']\<rparr>"

text \<open>
  The calls that leave the module: \<^verbatim>\<open>client.update(path, value)\<close> and
  \<^verbatim>\<open>coordinator.async_request_refresh()\<close>. Both are opaque collaborators; the model
  records each call in the order of issue and lets it return normally.
\<close>

datatype effect = Update string string | Refresh

text \<open>
  The world a command runs in: the snapshot it reads, the calls issued so far and the
  warnings logged so far.
\<close>

record world =
  data :: coordinator_data
  trace :: "effect list"
  log :: "string list"

definition client_update :: "string \<Rightarrow> string \<Rightarrow> world \<Rightarrow> world" where
  "client_update path v w = w\<lparr>trace := trace w @ [Update path v]\<rparr>"

definition async_request_refresh :: "world \<Rightarrow> world" where
  "async_request_refresh w = w\<lparr>trace := trace w @ [Refresh]\<rparr>"

definition warn :: "string list \<Rightarrow> world \<Rightarrow> world" where
  "warn msgs w = w\<lparr>log := log w @ msgs\<rparr>"

subsection \<open>Derived readings\<close>

text \<open>
  A reading returns a value or raises, and logs warnings on the way. Every
  \<^verbatim>\<open>try: return <expr> except (ValueError, TypeError): _LOGGER.warning(...); return None\<close>
  of the module is \<open>try_except\<close> applied to the value of the expression: an exception of
  the two listed classes becomes \<^verbatim>\<open>None\<close> and one warning, any other exception
  propagates.
\<close>

type_synonym 'a reading = "(exn + 'a) \<times> string list"

definition caught :: "exn \<Rightarrow> bool" where
  "caught ex = (ex = ValueError \<or> ex = TypeError)"

definition try_except :: "exn + 'a \<Rightarrow> string \<Rightarrow> ('a option) reading" where
  "try_except body msg =
     (case body of
        Inr v \<Rightarrow> (Inr (Some v), [])
      | Inl ex \<Rightarrow> if caught ex then (Inr None, [msg]) else (Inl ex, []))"

text \<open>The warnings, with \<^verbatim>\<open>%s\<close> replaced by the prefix.\<close>

definition msg_current_temperature :: "entity \<Rightarrow> string" where
  "msg_current_temperature e =
     ''Invalid current temperature value for '' @ ent_prefix e @ '', setting as None.''"

definition msg_target_temperature :: "entity \<Rightarrow> string" where
  "msg_target_temperature e =
     ''Invalid target temperature value for '' @ ent_prefix e @ '', setting as None.''"

definition msg_selected_mode :: "entity \<Rightarrow> string" where
  "msg_selected_mode e =
     ''Invalid selected mode value for '' @ ent_prefix e @ '', setting as None.''"

definition msg_custom_temp_remaining_time :: "entity \<Rightarrow> string" where
  "msg_custom_temp_remaining_time e =
     ''Invalid custom temp remaining time for '' @ ent_prefix e @ '', setting as None.''"

definition msg_preset_mode :: "entity \<Rightarrow> string" where
  "msg_preset_mode e = ''Invalid preset mode for '' @ ent_prefix e @ '', setting as None.''"

text \<open>
  \<^verbatim>\<open>float(a) - float(b)\<close>: the left conversion runs first, and the first exception
  ends the expression.
\<close>

definition float_diff :: "'f py_builtins \<Rightarrow> pyval \<Rightarrow> pyval \<Rightarrow> exn + 'f" where
  "float_diff B a b =
     (case py_float B a of
        Inl ex \<Rightarrow> Inl ex
      | Inr x \<Rightarrow> (case py_float B b of Inl ex \<Rightarrow> Inl ex | Inr y \<Rightarrow> Inr (float_sub B x y)))"

text \<open>\<^verbatim>\<open>WindhagerThermostatClimate.current_temperature\<close> (lines 114 to 131).\<close>

definition current_temperature :: "'f py_builtins \<Rightarrow> entity \<Rightarrow> coordinator_data \<Rightarrow> ('f option) reading" where
  "current_temperature B e d =
     try_except
       (float_diff B
          (dict_get (oids_or_empty d) (ent_prefix e @ ''/0/0/1/0'') (PStr ''0''))
          (dict_get (oids_or_empty d) (ent_prefix e @ ''/0/3/58/0'') (PStr ''0'')))
       (msg_current_temperature e)"

text \<open>\<^verbatim>\<open>WindhagerThermostatClimate.target_temperature\<close> (lines 133 to 150).\<close>

definition target_temperature :: "'f py_builtins \<Rightarrow> entity \<Rightarrow> coordinator_data \<Rightarrow> ('f option) reading" where
  "target_temperature B e d =
     try_except
       (float_diff B
          (dict_get (oids_or_empty d) (ent_prefix e @ ''/0/1/1/0'') (PStr ''0''))
          (dict_get (oids_or_empty d) (ent_prefix e @ ''/0/3/58/0'') (PStr ''0'')))
       (msg_target_temperature e)"

text \<open>
  \<^verbatim>\<open>WindhagerThermostatClimateWithoutBias.current_temperature\<close> (lines 292 to 303):
  \<^verbatim>\<open>data.get("oids")\<close> has no default here, so a snapshot without the table makes
  \<^verbatim>\<open>None.get\<close> raise \<^verbatim>\<open>AttributeError\<close>, which the handler does not list.
\<close>

definition current_temperature_nobias :: "'f py_builtins \<Rightarrow> entity \<Rightarrow> coordinator_data \<Rightarrow> ('f option) reading" where
  "current_temperature_nobias B e d =
     try_except
       (case oids d of
          None \<Rightarrow> Inl AttributeError
        | Some m \<Rightarrow> py_float B (dict_get m (ent_prefix e @ ''/0/0/1/0'') (PStr ''0'')))
       (msg_current_temperature e)"

text \<open>
  \<^verbatim>\<open>WindhagerThermostatClimateWithoutBias.target_temperature\<close> (lines 305 to 316): the
  register lookup has no default either, so a missing register hands \<^verbatim>\<open>None\<close> to
  \<^verbatim>\<open>float\<close>.
\<close>

definition target_temperature_nobias :: "'f py_builtins \<Rightarrow> entity \<Rightarrow> coordinator_data \<Rightarrow> ('f option) reading" where
  "target_temperature_nobias B e d =
     try_except
       (case oids d of
          None \<Rightarrow> Inl AttributeError
        | Some m \<Rightarrow> py_float B (dict_get m (ent_prefix e @ ''/0/1/1/0'') PNone))
       (msg_target_temperature e)"

text \<open>
  The three register readers have the same text in both classes
  (lines 182 to 211 and 348 to 377).
\<close>

definition raw_selected_mode :: "'f py_builtins \<Rightarrow> entity \<Rightarrow> coordinator_data \<Rightarrow> (int option) reading" where
  "raw_selected_mode B e d =
     try_except
       (py_int B (dict_get (oids_or_empty d) (ent_prefix e @ ''/0/3/50/0'') (PInt 0)))
       (msg_selected_mode e)"

definition raw_custom_temp_remaining_time :: "'f py_builtins \<Rightarrow> entity \<Rightarrow> coordinator_data \<Rightarrow> (int option) reading" where
  "raw_custom_temp_remaining_time B e d =
     try_except
       (py_int B (dict_get (oids_or_empty d) (ent_prefix e @ ''/0/2/10/0'') (PInt 0)))
       (msg_custom_temp_remaining_time e)"

definition raw_preset_mode :: "'f py_builtins \<Rightarrow> entity \<Rightarrow> coordinator_data \<Rightarrow> (int option) reading" where
  "raw_preset_mode B e d =
     try_except
       (py_int B (dict_get (oids_or_empty d) (ent_prefix e @ ''/0/3/50/0'') (PInt 0)))
       (msg_preset_mode e)"

text \<open>
  \<^verbatim>\<open>x > 0\<close> and \<^verbatim>\<open>xs[x]\<close> where \<open>x\<close> is an int or \<^verbatim>\<open>None\<close>: Python 3 raises
  \<^verbatim>\<open>TypeError\<close> on \<^verbatim>\<open>None\<close> in both.
\<close>

definition py_gt_zero :: "int option \<Rightarrow> exn + bool" where
  "py_gt_zero x = (case x of None \<Rightarrow> Inl TypeError | Some t \<Rightarrow> Inr (t > 0))"

definition py_getitem_opt :: "'a list \<Rightarrow> int option \<Rightarrow> exn + 'a" where
  "py_getitem_opt xs x = (case x of None \<Rightarrow> Inl TypeError | Some i \<Rightarrow> py_getitem xs i)"

text \<open>
  \<^verbatim>\<open>hvac_action\<close> (lines 160 to 165 and 326 to 331); \<^verbatim>\<open>None == 0\<close> is \<^verbatim>\<open>False\<close>. Of the
  host's enumeration \<^verbatim>\<open>HVACAction\<close> the module uses two members.
\<close>

datatype HVACAction = HVACAction_OFF | HVACAction_HEATING

definition hvac_action :: "'f py_builtins \<Rightarrow> entity \<Rightarrow> coordinator_data \<Rightarrow> HVACAction reading" where
  "hvac_action B e d =
     (case raw_preset_mode B e d of
        (Inl ex, msgs) \<Rightarrow> (Inl ex, msgs)
      | (Inr r, msgs) \<Rightarrow>
          (Inr (if r = Some 0 then HVACAction_OFF else HVACAction_HEATING), msgs))"

text \<open>\<^verbatim>\<open>preset_mode\<close> (lines 171 to 176 and 337 to 342).\<close>

definition preset_mode :: "'f py_builtins \<Rightarrow> entity \<Rightarrow> coordinator_data \<Rightarrow> string reading" where
  "preset_mode B e d =
     (case raw_custom_temp_remaining_time B e d of
        (Inl ex, msgs) \<Rightarrow> (Inl ex, msgs)
      | (Inr t, msgs) \<Rightarrow>
          (case py_gt_zero t of
             Inl ex \<Rightarrow> (Inl ex, msgs)
           | Inr True \<Rightarrow> (py_getitem (ent_preset_modes e) 7, msgs)
           | Inr False \<Rightarrow>
               (case raw_preset_mode B e d of
                  (Inl ex, msgs') \<Rightarrow> (Inl ex, msgs @ msgs')
                | (Inr i, msgs') \<Rightarrow> (py_getitem_opt (ent_preset_modes e) i, msgs @ msgs'))))"

subsection \<open>Commands\<close>

text \<open>
  \<^verbatim>\<open>async_set_hvac_mode\<close> (lines 213 to 214 and 379 to 380): the body is a docstring
  only, so the coroutine returns \<^verbatim>\<open>None\<close> for any argument.
\<close>

definition async_set_hvac_mode :: "entity \<Rightarrow> 'm \<Rightarrow> world \<Rightarrow> (exn + unit) \<times> world" where
  "async_set_hvac_mode e hvac_mode w = (Inr (), w)"

text \<open>
  \<^verbatim>\<open>async_set_preset_mode\<close> (lines 216 to 222 and 382 to 388). The mode register is
  written before the remaining time is read, and a remaining time read as \<^verbatim>\<open>None\<close>
  raises in the comparison, after that write and before the refresh.
\<close>

definition async_set_preset_mode :: "'f py_builtins \<Rightarrow> entity \<Rightarrow> string \<Rightarrow> world \<Rightarrow> (exn + unit) \<times> world" where
  "async_set_preset_mode B e label w =
     (case py_index (ent_preset_modes e) label of
        Inl ex \<Rightarrow> (Inl ex, w)
      | Inr id_mode \<Rightarrow>
          (let w1 = client_update (ent_prefix e @ ''/0/3/50/0'') (py_str_int (int id_mode)) w
           in case raw_custom_temp_remaining_time B e (data w1) of
                (Inl ex, msgs) \<Rightarrow> (Inl ex, warn msgs w1)
              | (Inr t, msgs) \<Rightarrow>
                  (case py_gt_zero t of
                     Inl ex \<Rightarrow> (Inl ex, warn msgs w1)
                   | Inr True \<Rightarrow>
                       (Inr (), async_request_refresh
                          (client_update (ent_prefix e @ ''/0/2/10/0'') ''0'' (warn msgs w1)))
                   | Inr False \<Rightarrow> (Inr (), async_request_refresh (warn msgs w1)))))"

text \<open>
  \<^verbatim>\<open>async_set_temperature\<close> (lines 224 to 230 and 390 to 396). The argument is
  \<^verbatim>\<open>kwargs.get(ATTR_TEMPERATURE)\<close>: a float, or \<^verbatim>\<open>None\<close> when the key is not passed, and
  \<^verbatim>\<open>str(None)\<close> is \<^verbatim>\<open>"None"\<close>.
\<close>

definition async_set_temperature :: "'f py_builtins \<Rightarrow> entity \<Rightarrow> 'f option \<Rightarrow> world \<Rightarrow> (exn + unit) \<times> world" where
  "async_set_temperature B e temperature w =
     (let w1 = client_update (ent_prefix e @ ''/0/3/4/0'')
                 (case temperature of None \<Rightarrow> ''None'' | Some v \<Rightarrow> str_of_float B v) w;
          w2 = client_update (ent_prefix e @ ''/0/2/10/0'') ''400'' w1
      in (Inr (), async_request_refresh w2))"

text \<open>
  \<^verbatim>\<open>set_current_temp_compensation\<close> (lines 232 to 234), a method of
  \<^verbatim>\<open>WindhagerThermostatClimate\<close> only; the service schema coerces the argument to a
  float.
\<close>

definition set_current_temp_compensation :: "'f py_builtins \<Rightarrow> entity \<Rightarrow> 'f \<Rightarrow> world \<Rightarrow> (exn + unit) \<times> world" where
  "set_current_temp_compensation B e compensation w =
     (Inr (), async_request_refresh
        (client_update (ent_prefix e @ ''/0/3/58/0'') (str_of_float B compensation) w))"

text \<open>
  Commands arrive one service call at a time, each finding the snapshot that the
  poller has left by then; an exception ends its own call only. A sequence of
  \<^verbatim>\<open>async_set_preset_mode\<close> calls is a list of labels, each with the snapshot it meets.
\<close>

fun set_preset_sequence :: "'f py_builtins \<Rightarrow> entity \<Rightarrow> (string \<times> coordinator_data) list \<Rightarrow> world \<Rightarrow> world" where
  "set_preset_sequence B e [] w = w"
| "set_preset_sequence B e ((label, d) # cs) w =
     set_preset_sequence B e cs (snd (async_set_preset_mode B e label (w\<lparr>data := d\<rparr>)))"

text \<open>The values written to one register path, in the order of the writes.\<close>

fun writes_to :: "string \<Rightarrow> effect list \<Rightarrow> string list" where
  "writes_to p [] = []"
| "writes_to p (Update q v # es) = (if q = p then v # writes_to p es else writes_to p es)"
| "writes_to p (Refresh # es) = writes_to p es"

subsection \<open>The two classes as method tables\<close>

text \<open>
  The coroutine methods that the body of each class defines. The bases
  \<^verbatim>\<open>CoordinatorEntity\<close> and \<^verbatim>\<open>ClimateEntity\<close> of the host define none of these names
  with a body of this module, so looking a command up on an entity is looking it up
  in the table of its class.
\<close>

datatype climate_class = WindhagerThermostatClimate | WindhagerThermostatClimateWithoutBias

datatype command =
  Async_set_hvac_mode | Async_set_preset_mode | Async_set_temperature
  | Set_current_temp_compensation

definition class_commands :: "climate_class \<Rightarrow> (string \<times> command) list" where
  "class_commands c =
     (case c of
        WindhagerThermostatClimate \<Rightarrow>
          [(''async_set_hvac_mode'', Async_set_hvac_mode),
           (''async_set_preset_mode'', Async_set_preset_mode),
           (''async_set_temperature'', Async_set_temperature),
           (''set_current_temp_compensation'', Set_current_temp_compensation)]
      | WindhagerThermostatClimateWithoutBias \<Rightarrow>
          [(''async_set_hvac_mode'', Async_set_hvac_mode),
           (''async_set_preset_mode'', Async_set_preset_mode),
           (''async_set_temperature'', Async_set_temperature)])"

text \<open>
  The arguments of a command, and running the command that \<^verbatim>\<open>getattr(entity, name)\<close>
  finds: a name the class does not define raises \<^verbatim>\<open>AttributeError\<close> before anything
  is issued.
\<close>

datatype ('f, 'm) args = Hvac_mode 'm | Preset_mode string | Temperature "'f option" | Compensation 'f

definition run_command :: "'f py_builtins \<Rightarrow> entity \<Rightarrow> command \<Rightarrow> ('f, 'm) args \<Rightarrow> world \<Rightarrow> (exn + unit) \<times> world" where
  "run_command B e c a w =
     (case (c, a) of
        (Async_set_hvac_mode, Hvac_mode m) \<Rightarrow> async_set_hvac_mode e m w
      | (Async_set_preset_mode, Preset_mode l) \<Rightarrow> async_set_preset_mode B e l w
      | (Async_set_temperature, Temperature t) \<Rightarrow> async_set_temperature B e t w
      | (Set_current_temp_compensation, Compensation x) \<Rightarrow> set_current_temp_compensation B e x w
      | _ \<Rightarrow> (Inl TypeError, w))"

definition call_method :: "'f py_builtins \<Rightarrow> climate_class \<Rightarrow> entity \<Rightarrow> string \<Rightarrow> ('f, 'm) args \<Rightarrow> world \<Rightarrow> (exn + unit) \<times> world" where
  "call_method B cls e name a w =
     (case map_of (class_commands cls) name of
        None \<Rightarrow> (Inl AttributeError, w)
      | Some c \<Rightarrow> run_command B e c a w)"

subsection \<open>An instance of the built-in conversions\<close>

text \<open>
  For evaluating the model on concrete registers: floats as rationals, numbers in
  plain decimal notation (an optional sign, digits, for a float an optional point
  followed by digits). On the strings evaluated below, CPython's \<^verbatim>\<open>int\<close>, \<^verbatim>\<open>float\<close> and
  \<^verbatim>\<open>str\<close> return the same, and the rationals that occur are binary64 values.
\<close>

definition digit_of :: "char \<Rightarrow> nat option" where
  "digit_of c =
     (let k = (of_char c :: nat) in if 48 \<le> k \<and> k \<le> 57 then Some (k - 48) else None)"

fun dec_digits :: "string \<Rightarrow> nat \<Rightarrow> nat option" where
  "dec_digits [] acc = Some acc"
| "dec_digits (c # cs) acc =
     (case digit_of c of None \<Rightarrow> None | Some k \<Rightarrow> dec_digits cs (10 * acc + k))"

definition dec_nat :: "string \<Rightarrow> nat option" where
  "dec_nat s = (if s = [] then None else dec_digits s 0)"

definition dec_int :: "string \<Rightarrow> int option" where
  "dec_int s =
     (if s \<noteq> [] \<and> hd s = CHR ''-'' then map_option (\<lambda>n. - int n) (dec_nat (tl s))
      else if s \<noteq> [] \<and> hd s = CHR ''+'' then map_option int (dec_nat (tl s))
      else map_option int (dec_nat s))"

definition dec_unsigned :: "string \<Rightarrow> rat option" where
  "dec_unsigned s =
     (let ip = takeWhile (\<lambda>c. c \<noteq> CHR ''.'') s; rest = dropWhile (\<lambda>c. c \<noteq> CHR ''.'') s
      in if rest = [] then map_option of_nat (dec_nat ip)
         else (case (dec_nat ip, dec_nat (tl rest)) of
                 (Some a, Some b) \<Rightarrow> Some (of_nat a + of_nat b / 10 ^ length (tl rest))
               | _ \<Rightarrow> None))"

definition dec_float :: "string \<Rightarrow> rat option" where
  "dec_float s =
     (if s \<noteq> [] \<and> hd s = CHR ''-'' then map_option uminus (dec_unsigned (tl s))
      else if s \<noteq> [] \<and> hd s = CHR ''+'' then dec_unsigned (tl s)
      else dec_unsigned s)"

fun frac_digits :: "nat \<Rightarrow> rat \<Rightarrow> string" where
  "frac_digits 0 r = []"
| "frac_digits (Suc n) r =
     (let k = nat \<lfloor>r * 10\<rfloor>; r' = r * 10 - of_nat k
      in digit_char k # (if r' = 0 then [] else frac_digits n r'))"

definition dec_str :: "rat \<Rightarrow> string" where
  "dec_str r =
     (if r < 0 then ''-'' else []) @ py_str_int \<lfloor>\<bar>r\<bar>\<rfloor> @ ''.''
       @ frac_digits 17 (\<bar>r\<bar> - of_int \<lfloor>\<bar>r\<bar>\<rfloor>)"

definition dec_builtins :: "rat py_builtins" where
  "dec_builtins =
     \<lparr>int_of_str = dec_int, float_of_str = dec_float,
      float_of_int = (\<lambda>n. Some (of_int n)), float_sub = (\<lambda>x y. x - y),
      str_of_float = dec_str\<rparr>"

text \<open>A thermostat channel and its two entities, for the evaluations below.\<close>

definition dev0 :: device_info where
  "dev0 = \<lparr>di_id = ''climate_1_15'', di_name = ''Thermostat'', di_prefix = ''/1/15'',
            di_device_id = ''15'', di_device_name = ''Heating circuit''\<rparr>"

definition world0 :: world where
  "world0 = \<lparr>data = \<lparr>oids = Some Map.empty\<rparr>, trace = [], log = []\<rparr>"

text \<open>Two snapshots of that channel: mode 3 with no override, and mode 3 with 120 minutes left.\<close>

definition store_mode3_idle :: oid_table where
  "store_mode3_idle = [''/1/15/0/3/50/0'' \<mapsto> ''3'', ''/1/15/0/2/10/0'' \<mapsto> ''0'']"

definition store_mode3_override :: oid_table where
  "store_mode3_override = [''/1/15/0/3/50/0'' \<mapsto> ''3'', ''/1/15/0/2/10/0'' \<mapsto> ''120'']"

text \<open>
  Three more snapshots: a malformed setpoint, a malformed remaining time, and two
  temperatures with no bias register.
\<close>

definition store_setpoint_abc :: oid_table where
  "store_setpoint_abc = [''/1/15/0/1/1/0'' \<mapsto> ''abc'']"

definition store_override_abc :: oid_table where
  "store_override_abc = [''/1/15/0/2/10/0'' \<mapsto> ''abc'']"

definition store_temps :: oid_table where
  "store_temps = [''/1/15/0/0/1/0'' \<mapsto> ''21.5'', ''/1/15/0/1/1/0'' \<mapsto> ''20.0'']"

definition store_biased :: oid_table where
  "store_biased = [''/1/15/0/0/1/0'' \<mapsto> ''21.5'', ''/1/15/0/3/58/0'' \<mapsto> ''1.0'']"

section \<open>Properties\<close>

subsection \<open>Facts about the Python primitives\<close>

lemma py_index_notin: "x \<notin> set xs \<Longrightarrow> py_index xs x = Inl ValueError"
  by (induction xs) auto

lemma py_index_in:
  "x \<in> set xs \<Longrightarrow> \<exists>k. py_index xs x = Inr k \<and> k < length xs \<and> xs ! k = x"
  by (induction xs) auto

lemma py_str_int_small:
  "py_str_int 0 = ''0''" "py_str_int 1 = ''1''" "py_str_int 2 = ''2''" "py_str_int 3 = ''3''"
  "py_str_int 4 = ''4''" "py_str_int 5 = ''5''" "py_str_int 6 = ''6''" "py_str_int 7 = ''7''"
  by code_simp+

lemma py_int_raises: "py_int B v = Inl ex \<Longrightarrow> caught ex"
  by (auto simp: py_int_def caught_def split: pyval.splits option.splits)

lemma raw_custom_temp_remaining_time_read:
  "py_int B (dict_get (oids_or_empty d) (ent_prefix e @ ''/0/2/10/0'') (PInt 0)) = Inr r
   \<Longrightarrow> raw_custom_temp_remaining_time B e d = (Inr (Some r), [])"
  by (simp add: raw_custom_temp_remaining_time_def try_except_def)

lemma raw_preset_mode_read:
  "py_int B (dict_get (oids_or_empty d) (ent_prefix e @ ''/0/3/50/0'') (PInt 0)) = Inr k
   \<Longrightarrow> raw_preset_mode B e d = (Inr (Some k), [])"
  by (simp add: raw_preset_mode_def try_except_def)

lemma labels_nth:
  "0 \<le> k \<Longrightarrow> k \<le> 7 \<Longrightarrow>
   py_getitem [''0'', ''1'', ''2'', ''3'', ''4'', ''5'', ''6'', ''7''] k = Inr (py_str_int k)"
proof -
  assume "0 \<le> k" "k \<le> 7"
  then have "k = 0 \<or> k = 1 \<or> k = 2 \<or> k = 3 \<or> k = 4 \<or> k = 5 \<or> k = 6 \<or> k = 7"
    by arith
  then show ?thesis
    by (elim disjE) (simp_all add: py_getitem_def py_str_int_small)
qed

lemma py_index_labels:
  assumes "label \<in> set [''0'', ''1'', ''2'', ''3'', ''4'', ''5'', ''6'', ''7'']"
  shows "\<exists>k. py_index [''0'', ''1'', ''2'', ''3'', ''4'', ''5'', ''6'', ''7''] label = Inr k
             \<and> py_str_int (int k) = label"
  using assms by (auto simp: py_str_int_small)

lemma writes_to_append: "writes_to p (xs @ ys) = writes_to p xs @ writes_to p ys"
  by (induction p xs rule: writes_to.induct) auto

subsection \<open>Commands\<close>

text \<open>
  C9. For every hvac mode argument, \<^verbatim>\<open>async_set_hvac_mode\<close> is a no-op: it returns
  normally, issues no register write and no refresh, logs nothing and leaves the
  snapshot of the register store as it was.
\<close>

theorem async_set_hvac_mode_noop:
  "async_set_hvac_mode e hvac_mode w = (Inr (), w)
   \<and> trace (snd (async_set_hvac_mode e hvac_mode w)) = trace w
   \<and> data (snd (async_set_hvac_mode e hvac_mode w)) = data w"
  by (simp add: async_set_hvac_mode_def)

text \<open>
  C5. For every temperature value \<open>v\<close>, \<^verbatim>\<open>async_set_temperature\<close> issues exactly three
  calls, in this order: the write of \<^verbatim>\<open>str(v)\<close> to the register \<^verbatim>\<open>prefix + "/0/3/4/0"\<close>, the
  write of \<^verbatim>\<open>"400"\<close> to the register \<^verbatim>\<open>prefix + "/0/2/10/0"\<close>, and the refresh request.
  No condition guards the second write: the trace is the same for every snapshot.
\<close>

theorem async_set_temperature_effects:
  "async_set_temperature B e (Some v) w =
     (Inr (), w\<lparr>trace := trace w @
        [Update (ent_prefix e @ ''/0/3/4/0'') (str_of_float B v),
         Update (ent_prefix e @ ''/0/2/10/0'') ''400'',
         Refresh]\<rparr>)"
  by (simp add: async_set_temperature_def client_update_def async_request_refresh_def)

text \<open>The scenario of the specification: the temperature 22.0 on the channel \<^verbatim>\<open>/1/15\<close>.\<close>

lemma async_set_temperature_scenario:
  "trace (snd (async_set_temperature dec_builtins (climate_init dev0) (Some 22) world0)) =
     [Update ''/1/15/0/3/4/0'' ''22.0'', Update ''/1/15/0/2/10/0'' ''400'', Refresh]"
  by code_simp

text \<open>
  C6. For every label outside the eight labels \<^verbatim>\<open>"0"\<close> to \<^verbatim>\<open>"7"\<close>,
  \<^verbatim>\<open>async_set_preset_mode\<close> raises \<^verbatim>\<open>ValueError\<close> (from \<^verbatim>\<open>list.index\<close>) and returns the world
  as it found it: no register write, no refresh, no warning.
\<close>

theorem async_set_preset_mode_invalid_label:
  assumes "ent_preset_modes e = [''0'', ''1'', ''2'', ''3'', ''4'', ''5'', ''6'', ''7'']"
    and "label \<notin> set [''0'', ''1'', ''2'', ''3'', ''4'', ''5'', ''6'', ''7'']"
  shows "async_set_preset_mode B e label w = (Inl ValueError, w)"
proof -
  from assms have "py_index (ent_preset_modes e) label = Inl ValueError"
    by (intro py_index_notin) simp
  then show ?thesis by (simp add: async_set_preset_mode_def)
qed

theorem async_set_preset_mode_invalid_label_witness:
  "ent_preset_modes (climate_init dev0) = [''0'', ''1'', ''2'', ''3'', ''4'', ''5'', ''6'', ''7'']
   \<and> ''9'' \<notin> set [''0'', ''1'', ''2'', ''3'', ''4'', ''5'', ''6'', ''7'']
   \<and> async_set_preset_mode dec_builtins (climate_init dev0) ''9'' world0 = (Inl ValueError, world0)
   \<and> trace (snd (async_set_preset_mode dec_builtins (climate_init dev0) ''9'' world0)) = []"
proof -
  have a: "ent_preset_modes (climate_init dev0) = [''0'', ''1'', ''2'', ''3'', ''4'', ''5'', ''6'', ''7'']"
    by (simp add: climate_init_def)
  have b: "''9'' \<notin> set [''0'', ''1'', ''2'', ''3'', ''4'', ''5'', ''6'', ''7'']" by simp
  show ?thesis
    using a b async_set_preset_mode_invalid_label [OF a b, of dec_builtins world0]
    by (simp add: world0_def)
qed

text \<open>
  One call of \<^verbatim>\<open>async_set_preset_mode\<close> with a label of the list writes that label, and
  nothing else, to the mode register: the index of the label, printed in decimal, is
  the label again, and the only other write goes to the register of the remaining
  time.
\<close>

lemma async_set_preset_mode_mode_writes:
  assumes "ent_preset_modes e = [''0'', ''1'', ''2'', ''3'', ''4'', ''5'', ''6'', ''7'']"
    and "label \<in> set [''0'', ''1'', ''2'', ''3'', ''4'', ''5'', ''6'', ''7'']"
  shows "writes_to (ent_prefix e @ ''/0/3/50/0'') (trace (snd (async_set_preset_mode B e label w)))
       = writes_to (ent_prefix e @ ''/0/3/50/0'') (trace w) @ [label]"
proof -
  from py_index_labels [OF assms(2)] assms(1)
  obtain k where k: "py_index (ent_preset_modes e) label = Inr k" "py_str_int (int k) = label"
    by auto
  show ?thesis
    unfolding async_set_preset_mode_def
    by (simp add: k Let_def client_update_def async_request_refresh_def warn_def writes_to_append
        split: prod.splits sum.splits bool.splits)
qed

text \<open>
  C2, as the code has it. For every sequence of \<^verbatim>\<open>async_set_preset_mode\<close> calls with
  labels of the eight-label list, whatever snapshot each call meets, the values
  written to the mode register \<^verbatim>\<open>prefix + "/0/3/50/0"\<close> are the labels of the calls, in
  order. So \<^verbatim>\<open>"7"\<close> is written exactly by the calls whose label is \<^verbatim>\<open>"7"\<close>, and never
  by a sequence drawn from \<^verbatim>\<open>"0"\<close> to \<^verbatim>\<open>"6"\<close>.
\<close>

theorem set_preset_sequence_mode_writes:
  assumes "ent_preset_modes e = [''0'', ''1'', ''2'', ''3'', ''4'', ''5'', ''6'', ''7'']"
    and "set (map fst cs) \<subseteq> set [''0'', ''1'', ''2'', ''3'', ''4'', ''5'', ''6'', ''7'']"
  shows "writes_to (ent_prefix e @ ''/0/3/50/0'') (trace (set_preset_sequence B e cs w))
       = writes_to (ent_prefix e @ ''/0/3/50/0'') (trace w) @ map fst cs"
  using assms(2)
proof (induction cs arbitrary: w)
  case Nil
  then show ?case by simp
next
  case (Cons c cs)
  obtain label d where c: "c = (label, d)" by (cases c)
  from Cons.prems c have l: "label \<in> set [''0'', ''1'', ''2'', ''3'', ''4'', ''5'', ''6'', ''7'']"
    and rest: "set (map fst cs) \<subseteq> set [''0'', ''1'', ''2'', ''3'', ''4'', ''5'', ''6'', ''7'']"
    by auto
  have "writes_to (ent_prefix e @ ''/0/3/50/0'')
          (trace (set_preset_sequence B e cs (snd (async_set_preset_mode B e label (w\<lparr>data := d\<rparr>)))))
        = writes_to (ent_prefix e @ ''/0/3/50/0'')
            (trace (snd (async_set_preset_mode B e label (w\<lparr>data := d\<rparr>)))) @ map fst cs"
    using Cons.IH [OF rest] .
  also have "writes_to (ent_prefix e @ ''/0/3/50/0'')
            (trace (snd (async_set_preset_mode B e label (w\<lparr>data := d\<rparr>))))
        = writes_to (ent_prefix e @ ''/0/3/50/0'') (trace w) @ [label]"
    using async_set_preset_mode_mode_writes [OF assms(1) l, of B "w\<lparr>data := d\<rparr>"] by simp
  finally show ?case by (simp add: c)
qed

theorem set_preset_sequence_mode_writes_witness:
  "writes_to ''/1/15/0/3/50/0''
     (trace (set_preset_sequence dec_builtins (climate_init dev0)
        [(''3'', \<lparr>oids = Some Map.empty\<rparr>), (''6'', \<lparr>oids = Some Map.empty\<rparr>)] world0))
   = [''3'', ''6'']"
proof -
  have a: "ent_preset_modes (climate_init dev0) = [''0'', ''1'', ''2'', ''3'', ''4'', ''5'', ''6'', ''7'']"
    by (simp add: climate_init_def)
  have b: "set (map fst [(''3'', \<lparr>oids = Some Map.empty\<rparr>), (''6'', \<lparr>oids = Some Map.empty\<rparr>)])
      \<subseteq> set [''0'', ''1'', ''2'', ''3'', ''4'', ''5'', ''6'', ''7'']"
    by simp
  show ?thesis
    using set_preset_sequence_mode_writes [OF a b, of dec_builtins world0]
    by (simp add: world0_def climate_init_def dev0_def)
qed

text \<open>
  C2, as stated, fails: the label \<^verbatim>\<open>"7"\<close> is one of the eight, its index is 7, and the
  call writes \<^verbatim>\<open>"7"\<close> to the mode register.
\<close>

theorem set_preset_writes_seven:
  "writes_to ''/1/15/0/3/50/0''
     (trace (set_preset_sequence dec_builtins (climate_init dev0)
        [(''7'', \<lparr>oids = Some Map.empty\<rparr>)] world0))
   = [''7'']"
  by code_simp

text \<open>
  C10. \<^verbatim>\<open>set_current_temp_compensation\<close> is a method of \<^verbatim>\<open>WindhagerThermostatClimate\<close>
  and of no other class: the table of \<^verbatim>\<open>WindhagerThermostatClimateWithoutBias\<close> is the
  table of the biased class without that one name. Called on a biased entity it
  writes \<^verbatim>\<open>str(compensation)\<close> to \<^verbatim>\<open>prefix + "/0/3/58/0"\<close> and requests a refresh; looked up
  on an unbiased entity it raises \<^verbatim>\<open>AttributeError\<close> and nothing is issued.
\<close>

theorem compensation_only_on_biased_class:
  "map_of (class_commands WindhagerThermostatClimate) ''set_current_temp_compensation''
     = Some Set_current_temp_compensation
   \<and> map_of (class_commands WindhagerThermostatClimateWithoutBias) ''set_current_temp_compensation''
     = None
   \<and> map_of (class_commands WindhagerThermostatClimateWithoutBias)
     = (map_of (class_commands WindhagerThermostatClimate)) (''set_current_temp_compensation'' := None)
   \<and> call_method B WindhagerThermostatClimate e ''set_current_temp_compensation'' (Compensation x) w
     = (Inr (), w\<lparr>trace := trace w @
          [Update (ent_prefix e @ ''/0/3/58/0'') (str_of_float B x), Refresh]\<rparr>)
   \<and> call_method B WindhagerThermostatClimateWithoutBias e ''set_current_temp_compensation'' (Compensation x) w
     = (Inl AttributeError, w)"
  by (auto simp: class_commands_def call_method_def run_command_def
      set_current_temp_compensation_def client_update_def async_request_refresh_def fun_eq_iff)

subsection \<open>Readings\<close>

text \<open>
  C7. The reported hvac action is \<^verbatim>\<open>off\<close> if and only if the raw mode register, read as
  \<^verbatim>\<open>int(oids.get(prefix + "/0/3/50/0", 0))\<close>, is the integer 0 (a missing register reads
  as the default 0); in every other case, a malformed string included, it is
  \<^verbatim>\<open>heating\<close>.
\<close>

theorem hvac_action_off_iff:
  "(fst (hvac_action B e d) = Inr HVACAction_OFF) =
     (py_int B (dict_get (oids_or_empty d) (ent_prefix e @ ''/0/3/50/0'') (PInt 0)) = Inr 0)
   \<and> (fst (hvac_action B e d) = Inr HVACAction_HEATING) =
     (py_int B (dict_get (oids_or_empty d) (ent_prefix e @ ''/0/3/50/0'') (PInt 0)) \<noteq> Inr 0)"
  by (auto simp: hvac_action_def raw_preset_mode_def try_except_def
      dest: py_int_raises split: sum.splits)

text \<open>
  C3. Let the register of the remaining override minutes read as \<open>r\<close>, that is, let
  \<^verbatim>\<open>int(oids.get(prefix + "/0/2/10/0", 0))\<close> be \<open>r\<close>. If \<open>r > 0\<close>, \<^verbatim>\<open>preset_mode\<close> is \<^verbatim>\<open>"7"\<close>
  whatever the mode register holds (it is not read). If \<open>r \<le> 0\<close> and the mode register
  reads as an integer \<open>k\<close> from 0 to 6, \<^verbatim>\<open>preset_mode\<close> is the decimal string of \<open>k\<close>.
  Nothing is logged in either case. The entity is any entity with the eight labels,
  which both constructors build.
\<close>

theorem preset_mode_by_registers:
  assumes "ent_preset_modes e = [''0'', ''1'', ''2'', ''3'', ''4'', ''5'', ''6'', ''7'']"
    and "py_int B (dict_get m (ent_prefix e @ ''/0/2/10/0'') (PInt 0)) = Inr r"
  shows "(0 < r \<longrightarrow> preset_mode B e \<lparr>oids = Some m\<rparr> = (Inr ''7'', []))
       \<and> (r \<le> 0 \<longrightarrow>
            (\<forall>k. py_int B (dict_get m (ent_prefix e @ ''/0/3/50/0'') (PInt 0)) = Inr k
                 \<and> 0 \<le> k \<and> k \<le> 6
               \<longrightarrow> preset_mode B e \<lparr>oids = Some m\<rparr> = (Inr (py_str_int k), [])))"
proof -
  let ?d = "\<lparr>oids = Some m\<rparr>"
  have t: "raw_custom_temp_remaining_time B e ?d = (Inr (Some r), [])"
    using assms(2) by (intro raw_custom_temp_remaining_time_read) (simp add: oids_or_empty_def)
  have hi: "0 < r \<Longrightarrow> preset_mode B e ?d = (Inr ''7'', [])"
    using t assms(1) by (simp add: preset_mode_def py_gt_zero_def py_getitem_def)
  have lo: "preset_mode B e ?d = (Inr (py_str_int k), [])"
    if "r \<le> 0" and k: "py_int B (dict_get m (ent_prefix e @ ''/0/3/50/0'') (PInt 0)) = Inr k"
      and "0 \<le> k" "k \<le> 6" for k
  proof -
    have p: "raw_preset_mode B e ?d = (Inr (Some k), [])"
      using k by (intro raw_preset_mode_read) (simp add: oids_or_empty_def)
    have "py_getitem (ent_preset_modes e) k = Inr (py_str_int k)"
      using that assms(1) by (simp add: labels_nth)
    then show ?thesis
      using t p \<open>r \<le> 0\<close> by (simp add: preset_mode_def py_gt_zero_def py_getitem_opt_def)
  qed
  show ?thesis using hi lo by blast
qed

theorem preset_mode_by_registers_witness:
  "preset_mode dec_builtins (climate_init dev0) \<lparr>oids = Some store_mode3_idle\<rparr> = (Inr ''3'', [])
   \<and> preset_mode dec_builtins (climate_nobias_init dev0) \<lparr>oids = Some store_mode3_override\<rparr> = (Inr ''7'', [])"
proof -
  have a: "ent_preset_modes (climate_init dev0) = [''0'', ''1'', ''2'', ''3'', ''4'', ''5'', ''6'', ''7'']"
    by (simp add: climate_init_def)
  have a': "ent_preset_modes (climate_nobias_init dev0) = [''0'', ''1'', ''2'', ''3'', ''4'', ''5'', ''6'', ''7'']"
    by (simp add: climate_nobias_init_def)
  have r0: "py_int dec_builtins (dict_get store_mode3_idle (ent_prefix (climate_init dev0) @ ''/0/2/10/0'') (PInt 0)) = Inr 0"
    by code_simp
  have k3: "py_int dec_builtins (dict_get store_mode3_idle (ent_prefix (climate_init dev0) @ ''/0/3/50/0'') (PInt 0)) = Inr 3"
    by code_simp
  have r120: "py_int dec_builtins (dict_get store_mode3_override (ent_prefix (climate_nobias_init dev0) @ ''/0/2/10/0'') (PInt 0)) = Inr 120"
    by code_simp
  from preset_mode_by_registers [OF a r0] k3
  have "preset_mode dec_builtins (climate_init dev0) \<lparr>oids = Some store_mode3_idle\<rparr> = (Inr (py_str_int 3), [])"
    by simp
  moreover from preset_mode_by_registers [OF a' r120]
  have "preset_mode dec_builtins (climate_nobias_init dev0) \<lparr>oids = Some store_mode3_override\<rparr> = (Inr ''7'', [])"
    by simp
  ultimately show ?thesis by (simp add: py_str_int_small)
qed

subsection \<open>Temperature readings and malformed registers\<close>

text \<open>
  What the conversions can raise on the values the readings hand to them, and what
  the handler makes of it.
\<close>

lemma py_float_str_raises: "py_float B (PStr s) = Inl ex \<Longrightarrow> ex = ValueError"
  by (auto simp: py_float_def split: option.splits)

lemma py_float_str_malformed: "float_of_str B s = None \<Longrightarrow> py_float B (PStr s) = Inl ValueError"
  by (simp add: py_float_def)

lemma py_float_none: "py_float B PNone = Inl TypeError"
  by (simp add: py_float_def)

lemma try_except_caught:
  "(\<And>ex. body = Inl ex \<Longrightarrow> caught ex) \<Longrightarrow>
   (\<exists>x. try_except body msg = (Inr (Some x), [])) \<or> try_except body msg = (Inr None, [msg])"
  by (cases body) (auto simp: try_except_def)

lemma dict_get_str_default: "\<exists>s. dict_get m k (PStr t) = PStr s"
  by (simp add: dict_get_def split: option.splits)

lemma float_diff_raises:
  "float_diff B (dict_get m k (PStr t)) (dict_get m k' (PStr t')) = Inl ex \<Longrightarrow> caught ex"
proof -
  obtain s s' where "dict_get m k (PStr t) = PStr s" "dict_get m k' (PStr t') = PStr s'"
    using dict_get_str_default by metis
  moreover assume "float_diff B (dict_get m k (PStr t)) (dict_get m k' (PStr t')) = Inl ex"
  ultimately show ?thesis
    by (auto simp: float_diff_def caught_def split: sum.splits dest: py_float_str_raises)
qed

lemma current_temperature_total:
  "(\<exists>x. current_temperature B e \<lparr>oids = Some m\<rparr> = (Inr (Some x), []))
   \<or> current_temperature B e \<lparr>oids = Some m\<rparr> = (Inr None, [msg_current_temperature e])"
  unfolding current_temperature_def
  by (rule try_except_caught) (simp add: oids_or_empty_def float_diff_raises)

lemma target_temperature_total:
  "(\<exists>x. target_temperature B e \<lparr>oids = Some m\<rparr> = (Inr (Some x), []))
   \<or> target_temperature B e \<lparr>oids = Some m\<rparr> = (Inr None, [msg_target_temperature e])"
  unfolding target_temperature_def
  by (rule try_except_caught) (simp add: oids_or_empty_def float_diff_raises)

lemma current_temperature_nobias_total:
  "(\<exists>x. current_temperature_nobias B e \<lparr>oids = Some m\<rparr> = (Inr (Some x), []))
   \<or> current_temperature_nobias B e \<lparr>oids = Some m\<rparr> = (Inr None, [msg_current_temperature e])"
  unfolding current_temperature_nobias_def
  by (rule try_except_caught)
    (auto simp: dict_get_def caught_def split: option.splits dest: py_float_str_raises)

lemma target_temperature_nobias_total:
  "(\<exists>x. target_temperature_nobias B e \<lparr>oids = Some m\<rparr> = (Inr (Some x), []))
   \<or> target_temperature_nobias B e \<lparr>oids = Some m\<rparr> = (Inr None, [msg_target_temperature e])"
  unfolding target_temperature_nobias_def
  by (rule try_except_caught)
    (auto simp: dict_get_def caught_def py_float_none split: option.splits dest: py_float_str_raises)

lemma hvac_action_total:
  "(\<exists>a. hvac_action B e d = (Inr a, []))
   \<or> hvac_action B e d = (Inr HVACAction_HEATING, [msg_preset_mode e])"
  by (auto simp: hvac_action_def raw_preset_mode_def try_except_def
      dest: py_int_raises split: sum.splits)

lemma float_diff_left_malformed:
  "m k = Some s \<Longrightarrow> float_of_str B s = None \<Longrightarrow>
   float_diff B (dict_get m k dl) b = Inl ValueError"
  by (simp add: float_diff_def dict_get_def py_float_def)

lemma float_diff_right_malformed:
  "m k' = Some s \<Longrightarrow> float_of_str B s = None \<Longrightarrow>
   float_diff B (dict_get m k (PStr t)) (dict_get m k' dr) = Inl ValueError"
  by (auto simp: float_diff_def dict_get_def py_float_def split: option.splits sum.splits)

lemma malformed_current:
  assumes "m (ent_prefix e @ ''/0/0/1/0'') = Some s" "float_of_str B s = None"
  shows "current_temperature B e \<lparr>oids = Some m\<rparr> = (Inr None, [msg_current_temperature e])"
    and "current_temperature_nobias B e \<lparr>oids = Some m\<rparr> = (Inr None, [msg_current_temperature e])"
proof -
  show "current_temperature B e \<lparr>oids = Some m\<rparr> = (Inr None, [msg_current_temperature e])"
    using assms
    by (simp add: current_temperature_def oids_or_empty_def float_diff_left_malformed
        try_except_def caught_def)
  show "current_temperature_nobias B e \<lparr>oids = Some m\<rparr> = (Inr None, [msg_current_temperature e])"
    using assms
    by (simp add: current_temperature_nobias_def try_except_def caught_def dict_get_def py_float_def)
qed

lemma malformed_setpoint:
  assumes "m (ent_prefix e @ ''/0/1/1/0'') = Some s" "float_of_str B s = None"
  shows "target_temperature B e \<lparr>oids = Some m\<rparr> = (Inr None, [msg_target_temperature e])"
    and "target_temperature_nobias B e \<lparr>oids = Some m\<rparr> = (Inr None, [msg_target_temperature e])"
proof -
  show "target_temperature B e \<lparr>oids = Some m\<rparr> = (Inr None, [msg_target_temperature e])"
    using assms
    by (simp add: target_temperature_def oids_or_empty_def float_diff_left_malformed
        try_except_def caught_def)
  show "target_temperature_nobias B e \<lparr>oids = Some m\<rparr> = (Inr None, [msg_target_temperature e])"
    using assms
    by (simp add: target_temperature_nobias_def try_except_def caught_def dict_get_def py_float_def)
qed

lemma malformed_bias:
  assumes "m (ent_prefix e @ ''/0/3/58/0'') = Some s" "float_of_str B s = None"
  shows "current_temperature B e \<lparr>oids = Some m\<rparr> = (Inr None, [msg_current_temperature e])"
    and "target_temperature B e \<lparr>oids = Some m\<rparr> = (Inr None, [msg_target_temperature e])"
  using assms
  by (simp_all add: current_temperature_def target_temperature_def oids_or_empty_def
      float_diff_right_malformed try_except_def caught_def)

lemma malformed_mode:
  assumes "m (ent_prefix e @ ''/0/3/50/0'') = Some s" "int_of_str B s = None"
  shows "hvac_action B e \<lparr>oids = Some m\<rparr> = (Inr HVACAction_HEATING, [msg_preset_mode e])"
  using assms
  by (simp add: hvac_action_def raw_preset_mode_def try_except_def caught_def py_int_def
      dict_get_def oids_or_empty_def)

lemma frame_readings:
  "k \<noteq> ent_prefix e @ ''/0/0/1/0'' \<Longrightarrow> k \<noteq> ent_prefix e @ ''/0/3/58/0'' \<Longrightarrow>
     current_temperature B e \<lparr>oids = Some (m(k := v))\<rparr> = current_temperature B e \<lparr>oids = Some m\<rparr>"
  "k \<noteq> ent_prefix e @ ''/0/1/1/0'' \<Longrightarrow> k \<noteq> ent_prefix e @ ''/0/3/58/0'' \<Longrightarrow>
     target_temperature B e \<lparr>oids = Some (m(k := v))\<rparr> = target_temperature B e \<lparr>oids = Some m\<rparr>"
  "k \<noteq> ent_prefix e @ ''/0/0/1/0'' \<Longrightarrow>
     current_temperature_nobias B e \<lparr>oids = Some (m(k := v))\<rparr> = current_temperature_nobias B e \<lparr>oids = Some m\<rparr>"
  "k \<noteq> ent_prefix e @ ''/0/1/1/0'' \<Longrightarrow>
     target_temperature_nobias B e \<lparr>oids = Some (m(k := v))\<rparr> = target_temperature_nobias B e \<lparr>oids = Some m\<rparr>"
  "k \<noteq> ent_prefix e @ ''/0/3/50/0'' \<Longrightarrow>
     hvac_action B e \<lparr>oids = Some (m(k := v))\<rparr> = hvac_action B e \<lparr>oids = Some m\<rparr>"
  by (simp_all add: current_temperature_def target_temperature_def current_temperature_nobias_def
      target_temperature_nobias_def hvac_action_def raw_preset_mode_def oids_or_empty_def dict_get_def)

lemma missing_reads_default:
  "(k = ent_prefix e @ ''/0/0/1/0'' \<or> k = ent_prefix e @ ''/0/3/58/0'') \<Longrightarrow> m k = None \<Longrightarrow>
     current_temperature B e \<lparr>oids = Some (m(k \<mapsto> ''0''))\<rparr> = current_temperature B e \<lparr>oids = Some m\<rparr>"
  "(k = ent_prefix e @ ''/0/1/1/0'' \<or> k = ent_prefix e @ ''/0/3/58/0'') \<Longrightarrow> m k = None \<Longrightarrow>
     target_temperature B e \<lparr>oids = Some (m(k \<mapsto> ''0''))\<rparr> = target_temperature B e \<lparr>oids = Some m\<rparr>"
  "m (ent_prefix e @ ''/0/0/1/0'') = None \<Longrightarrow>
     current_temperature_nobias B e \<lparr>oids = Some (m(ent_prefix e @ ''/0/0/1/0'' \<mapsto> ''0''))\<rparr>
       = current_temperature_nobias B e \<lparr>oids = Some m\<rparr>"
  "m (ent_prefix e @ ''/0/1/1/0'') = None \<Longrightarrow>
     target_temperature_nobias B e \<lparr>oids = Some m\<rparr> = (Inr None, [msg_target_temperature e])"
  "m (ent_prefix e @ ''/0/3/50/0'') = None \<Longrightarrow>
     hvac_action B e \<lparr>oids = Some m\<rparr> = (Inr HVACAction_OFF, [])"
  by (auto simp: current_temperature_def target_temperature_def current_temperature_nobias_def
      target_temperature_nobias_def hvac_action_def raw_preset_mode_def oids_or_empty_def
      dict_get_def py_float_def py_int_def try_except_def caught_def)

text \<open>
  \<^verbatim>\<open>preset_mode\<close> is outside this contract: the readers return \<^verbatim>\<open>None\<close> for a malformed
  register, and \<^verbatim>\<open>None > 0\<close> raises \<^verbatim>\<open>TypeError\<close> in \<^verbatim>\<open>preset_mode\<close>, after the
  warning of the reader.
\<close>

lemma preset_mode_malformed_override:
  assumes "m (ent_prefix e @ ''/0/2/10/0'') = Some s" "int_of_str B s = None"
  shows "preset_mode B e \<lparr>oids = Some m\<rparr> = (Inl TypeError, [msg_custom_temp_remaining_time e])"
  using assms
  by (simp add: preset_mode_def raw_custom_temp_remaining_time_def try_except_def caught_def
      py_int_def dict_get_def oids_or_empty_def py_gt_zero_def)

text \<open>
  C1, as the code has it. For every register store: \<^verbatim>\<open>current_temperature\<close> and
  \<^verbatim>\<open>target_temperature\<close> of both classes and \<^verbatim>\<open>hvac_action\<close> never raise; each
  temperature reading is either a value with nothing logged or absent with exactly
  one warning, and \<^verbatim>\<open>hvac_action\<close> is an action with nothing logged or \<^verbatim>\<open>heating\<close> with
  one warning. A register that is present with a string the conversion rejects makes
  every reading that reads it absent (for \<^verbatim>\<open>hvac_action\<close>: \<^verbatim>\<open>heating\<close>) with its one
  warning, and changing any register leaves the readings that do not read it as they
  were. A missing register is read as its default: a temperature reading with the
  default \<^verbatim>\<open>"0"\<close> is what it would be with \<^verbatim>\<open>"0"\<close> stored, \<^verbatim>\<open>hvac_action\<close> is \<^verbatim>\<open>off\<close> with
  nothing logged, and only the unbiased \<^verbatim>\<open>target_temperature\<close>, which has no default,
  is absent with one warning. Nothing is said here of \<^verbatim>\<open>preset_mode\<close>.
\<close>

theorem readings_fail_soft:
  "((\<exists>x. current_temperature B e \<lparr>oids = Some m\<rparr> = (Inr (Some x), []))
      \<or> current_temperature B e \<lparr>oids = Some m\<rparr> = (Inr None, [msg_current_temperature e]))
   \<and> ((\<exists>x. target_temperature B e \<lparr>oids = Some m\<rparr> = (Inr (Some x), []))
      \<or> target_temperature B e \<lparr>oids = Some m\<rparr> = (Inr None, [msg_target_temperature e]))
   \<and> ((\<exists>x. current_temperature_nobias B e \<lparr>oids = Some m\<rparr> = (Inr (Some x), []))
      \<or> current_temperature_nobias B e \<lparr>oids = Some m\<rparr> = (Inr None, [msg_current_temperature e]))
   \<and> ((\<exists>x. target_temperature_nobias B e \<lparr>oids = Some m\<rparr> = (Inr (Some x), []))
      \<or> target_temperature_nobias B e \<lparr>oids = Some m\<rparr> = (Inr None, [msg_target_temperature e]))
   \<and> ((\<exists>a. hvac_action B e \<lparr>oids = Some m\<rparr> = (Inr a, []))
      \<or> hvac_action B e \<lparr>oids = Some m\<rparr> = (Inr HVACAction_HEATING, [msg_preset_mode e]))
   \<and> (\<forall>s. m (ent_prefix e @ ''/0/0/1/0'') = Some s \<and> float_of_str B s = None \<longrightarrow>
         current_temperature B e \<lparr>oids = Some m\<rparr> = (Inr None, [msg_current_temperature e])
       \<and> current_temperature_nobias B e \<lparr>oids = Some m\<rparr> = (Inr None, [msg_current_temperature e]))
   \<and> (\<forall>s. m (ent_prefix e @ ''/0/1/1/0'') = Some s \<and> float_of_str B s = None \<longrightarrow>
         target_temperature B e \<lparr>oids = Some m\<rparr> = (Inr None, [msg_target_temperature e])
       \<and> target_temperature_nobias B e \<lparr>oids = Some m\<rparr> = (Inr None, [msg_target_temperature e]))
   \<and> (\<forall>s. m (ent_prefix e @ ''/0/3/58/0'') = Some s \<and> float_of_str B s = None \<longrightarrow>
         current_temperature B e \<lparr>oids = Some m\<rparr> = (Inr None, [msg_current_temperature e])
       \<and> target_temperature B e \<lparr>oids = Some m\<rparr> = (Inr None, [msg_target_temperature e]))
   \<and> (\<forall>s. m (ent_prefix e @ ''/0/3/50/0'') = Some s \<and> int_of_str B s = None \<longrightarrow>
         hvac_action B e \<lparr>oids = Some m\<rparr> = (Inr HVACAction_HEATING, [msg_preset_mode e]))
   \<and> (\<forall>k v. k \<noteq> ent_prefix e @ ''/0/0/1/0'' \<and> k \<noteq> ent_prefix e @ ''/0/3/58/0'' \<longrightarrow>
         current_temperature B e \<lparr>oids = Some (m(k := v))\<rparr> = current_temperature B e \<lparr>oids = Some m\<rparr>)
   \<and> (\<forall>k v. k \<noteq> ent_prefix e @ ''/0/1/1/0'' \<and> k \<noteq> ent_prefix e @ ''/0/3/58/0'' \<longrightarrow>
         target_temperature B e \<lparr>oids = Some (m(k := v))\<rparr> = target_temperature B e \<lparr>oids = Some m\<rparr>)
   \<and> (\<forall>k v. k \<noteq> ent_prefix e @ ''/0/0/1/0'' \<longrightarrow>
         current_temperature_nobias B e \<lparr>oids = Some (m(k := v))\<rparr>
           = current_temperature_nobias B e \<lparr>oids = Some m\<rparr>)
   \<and> (\<forall>k v. k \<noteq> ent_prefix e @ ''/0/1/1/0'' \<longrightarrow>
         target_temperature_nobias B e \<lparr>oids = Some (m(k := v))\<rparr>
           = target_temperature_nobias B e \<lparr>oids = Some m\<rparr>)
   \<and> (\<forall>k v. k \<noteq> ent_prefix e @ ''/0/3/50/0'' \<longrightarrow>
         hvac_action B e \<lparr>oids = Some (m(k := v))\<rparr> = hvac_action B e \<lparr>oids = Some m\<rparr>)
   \<and> (\<forall>k. (k = ent_prefix e @ ''/0/0/1/0'' \<or> k = ent_prefix e @ ''/0/3/58/0'') \<and> m k = None \<longrightarrow>
         current_temperature B e \<lparr>oids = Some (m(k \<mapsto> ''0''))\<rparr>
           = current_temperature B e \<lparr>oids = Some m\<rparr>)
   \<and> (\<forall>k. (k = ent_prefix e @ ''/0/1/1/0'' \<or> k = ent_prefix e @ ''/0/3/58/0'') \<and> m k = None \<longrightarrow>
         target_temperature B e \<lparr>oids = Some (m(k \<mapsto> ''0''))\<rparr>
           = target_temperature B e \<lparr>oids = Some m\<rparr>)
   \<and> (m (ent_prefix e @ ''/0/0/1/0'') = None \<longrightarrow>
         current_temperature_nobias B e \<lparr>oids = Some (m(ent_prefix e @ ''/0/0/1/0'' \<mapsto> ''0''))\<rparr>
           = current_temperature_nobias B e \<lparr>oids = Some m\<rparr>)
   \<and> (m (ent_prefix e @ ''/0/1/1/0'') = None \<longrightarrow>
         target_temperature_nobias B e \<lparr>oids = Some m\<rparr> = (Inr None, [msg_target_temperature e]))
   \<and> (m (ent_prefix e @ ''/0/3/50/0'') = None \<longrightarrow>
         hvac_action B e \<lparr>oids = Some m\<rparr> = (Inr HVACAction_OFF, []))"
proof (intro conjI allI impI)
  show "(\<exists>x. current_temperature B e \<lparr>oids = Some m\<rparr> = (Inr (Some x), []))
      \<or> current_temperature B e \<lparr>oids = Some m\<rparr> = (Inr None, [msg_current_temperature e])"
    by (rule current_temperature_total)
  show "(\<exists>x. target_temperature B e \<lparr>oids = Some m\<rparr> = (Inr (Some x), []))
      \<or> target_temperature B e \<lparr>oids = Some m\<rparr> = (Inr None, [msg_target_temperature e])"
    by (rule target_temperature_total)
  show "(\<exists>x. current_temperature_nobias B e \<lparr>oids = Some m\<rparr> = (Inr (Some x), []))
      \<or> current_temperature_nobias B e \<lparr>oids = Some m\<rparr> = (Inr None, [msg_current_temperature e])"
    by (rule current_temperature_nobias_total)
  show "(\<exists>x. target_temperature_nobias B e \<lparr>oids = Some m\<rparr> = (Inr (Some x), []))
      \<or> target_temperature_nobias B e \<lparr>oids = Some m\<rparr> = (Inr None, [msg_target_temperature e])"
    by (rule target_temperature_nobias_total)
  show "(\<exists>a. hvac_action B e \<lparr>oids = Some m\<rparr> = (Inr a, []))
      \<or> hvac_action B e \<lparr>oids = Some m\<rparr> = (Inr HVACAction_HEATING, [msg_preset_mode e])"
    by (rule hvac_action_total)
qed (auto simp: malformed_current malformed_setpoint malformed_bias malformed_mode
    frame_readings missing_reads_default)

theorem readings_fail_soft_witness:
  "store_setpoint_abc ''/1/15/0/1/1/0'' = Some ''abc''
   \<and> float_of_str dec_builtins ''abc'' = None
   \<and> target_temperature dec_builtins (climate_init dev0) \<lparr>oids = Some store_setpoint_abc\<rparr>
       = (Inr None, [''Invalid target temperature value for /1/15, setting as None.''])
   \<and> target_temperature_nobias dec_builtins (climate_nobias_init dev0) \<lparr>oids = Some store_setpoint_abc\<rparr>
       = (Inr None, [''Invalid target temperature value for /1/15, setting as None.''])"
proof -
  have k: "store_setpoint_abc (ent_prefix (climate_init dev0) @ ''/0/1/1/0'') = Some ''abc''"
    by (simp add: store_setpoint_abc_def climate_init_def dev0_def)
  have k': "store_setpoint_abc (ent_prefix (climate_nobias_init dev0) @ ''/0/1/1/0'') = Some ''abc''"
    by (simp add: store_setpoint_abc_def climate_nobias_init_def dev0_def)
  have f: "float_of_str dec_builtins ''abc'' = None"
    by code_simp
  have p: "msg_target_temperature (climate_init dev0)
      = ''Invalid target temperature value for /1/15, setting as None.''"
    "msg_target_temperature (climate_nobias_init dev0)
      = ''Invalid target temperature value for /1/15, setting as None.''"
    by (simp_all add: msg_target_temperature_def climate_init_def climate_nobias_init_def dev0_def)
  show ?thesis
    using readings_fail_soft [of dec_builtins "climate_init dev0" store_setpoint_abc]
      readings_fail_soft [of dec_builtins "climate_nobias_init dev0" store_setpoint_abc]
      k k' f p
    by (simp add: store_setpoint_abc_def)
qed

text \<open>
  C1, as stated, fails twice. With no register at all, \<^verbatim>\<open>current_temperature\<close> is
  \<^verbatim>\<open>float("0") - float("0")\<close>, a value and no warning, not an absent reading. With
  \<^verbatim>\<open>"abc"\<close> in the register of the remaining time, \<^verbatim>\<open>preset_mode\<close> raises \<^verbatim>\<open>TypeError\<close>.
\<close>

theorem missing_register_reads_default_and_preset_mode_raises:
  "current_temperature dec_builtins (climate_init dev0) \<lparr>oids = Some Map.empty\<rparr>
     = (Inr (Some 0), [])
   \<and> preset_mode dec_builtins (climate_init dev0) \<lparr>oids = Some store_override_abc\<rparr>
     = (Inl TypeError, [''Invalid custom temp remaining time for /1/15, setting as None.''])"
  by code_simp

text \<open>The scenario of the specification: raw 21.5 with bias 1.0.\<close>

lemma current_temperature_scenario:
  "current_temperature dec_builtins (climate_init dev0) \<lparr>oids = Some store_biased\<rparr>
     = (Inr (Some (41 / 2)), [])
   \<and> current_temperature_nobias dec_builtins (climate_nobias_init dev0) \<lparr>oids = Some store_biased\<rparr>
     = (Inr (Some (43 / 2)), [])"
  by code_simp

subsection \<open>The two classes compared\<close>

text \<open>
  C4, as the code has it. Take the two entities built from one \<^verbatim>\<open>deviceInfo\<close>, a register
  store without the bias register \<^verbatim>\<open>prefix + "/0/3/58/0"\<close>, and float operations in which
  \<^verbatim>\<open>float("0")\<close> is a value \<open>z\<close> with \<open>x - z = x\<close> for every \<open>x\<close> (equality of float values,
  not Python's \<^verbatim>\<open>==\<close>, under which a NaN differs from itself). Then the biased
  \<^verbatim>\<open>current_temperature\<close> equals the unbiased one, value and warnings; and the biased
  \<^verbatim>\<open>target_temperature\<close> equals the unbiased one provided that the setpoint register
  \<^verbatim>\<open>prefix + "/0/1/1/0"\<close> is present.
\<close>

theorem bias_absent_readings_agree:
  assumes "m (di_prefix di @ ''/0/3/58/0'') = None"
    and "float_of_str B ''0'' = Some z"
    and "\<forall>x. float_sub B x z = x"
  shows "current_temperature B (climate_init di) \<lparr>oids = Some m\<rparr>
           = current_temperature_nobias B (climate_nobias_init di) \<lparr>oids = Some m\<rparr>
       \<and> (m (di_prefix di @ ''/0/1/1/0'') \<noteq> None \<longrightarrow>
            target_temperature B (climate_init di) \<lparr>oids = Some m\<rparr>
              = target_temperature_nobias B (climate_nobias_init di) \<lparr>oids = Some m\<rparr>)"
proof -
  have z: "py_float B (PStr ''0'') = Inr z"
    using assms(2) by (simp add: py_float_def)
  have sub: "float_diff B a (PStr ''0'') = py_float B a" for a
    using z assms(3) by (cases "py_float B a") (simp_all add: float_diff_def)
  have bias: "dict_get m (di_prefix di @ ''/0/3/58/0'') (PStr ''0'') = PStr ''0''"
    using assms(1) by (simp add: dict_get_def)
  have cur: "current_temperature B (climate_init di) \<lparr>oids = Some m\<rparr>
           = current_temperature_nobias B (climate_nobias_init di) \<lparr>oids = Some m\<rparr>"
    by (simp add: current_temperature_def current_temperature_nobias_def oids_or_empty_def
        climate_init_def climate_nobias_init_def msg_current_temperature_def bias sub)
  have tgt: "target_temperature B (climate_init di) \<lparr>oids = Some m\<rparr>
              = target_temperature_nobias B (climate_nobias_init di) \<lparr>oids = Some m\<rparr>"
    if "m (di_prefix di @ ''/0/1/1/0'') \<noteq> None"
  proof -
    from that have "dict_get m (di_prefix di @ ''/0/1/1/0'') (PStr ''0'')
        = dict_get m (di_prefix di @ ''/0/1/1/0'') PNone"
      by (auto simp: dict_get_def)
    then show ?thesis
      by (simp add: target_temperature_def target_temperature_nobias_def oids_or_empty_def
          climate_init_def climate_nobias_init_def msg_target_temperature_def bias sub)
  qed
  show ?thesis using cur tgt by blast
qed

theorem bias_absent_readings_agree_witness:
  "store_temps (di_prefix dev0 @ ''/0/3/58/0'') = None
   \<and> store_temps (di_prefix dev0 @ ''/0/1/1/0'') \<noteq> None
   \<and> current_temperature dec_builtins (climate_init dev0) \<lparr>oids = Some store_temps\<rparr>
       = current_temperature_nobias dec_builtins (climate_nobias_init dev0) \<lparr>oids = Some store_temps\<rparr>
   \<and> target_temperature dec_builtins (climate_init dev0) \<lparr>oids = Some store_temps\<rparr>
       = target_temperature_nobias dec_builtins (climate_nobias_init dev0) \<lparr>oids = Some store_temps\<rparr>
   \<and> target_temperature_nobias dec_builtins (climate_nobias_init dev0) \<lparr>oids = Some store_temps\<rparr>
       = (Inr (Some 20), [])"
proof -
  have a: "store_temps (di_prefix dev0 @ ''/0/3/58/0'') = None"
    by (simp add: store_temps_def dev0_def)
  have b: "float_of_str dec_builtins ''0'' = Some 0"
    by code_simp
  have c: "\<forall>x. float_sub dec_builtins x 0 = x"
    by (simp add: dec_builtins_def)
  have d: "store_temps (di_prefix dev0 @ ''/0/1/1/0'') \<noteq> None"
    by (simp add: store_temps_def dev0_def)
  have v: "target_temperature_nobias dec_builtins (climate_nobias_init dev0) \<lparr>oids = Some store_temps\<rparr>
       = (Inr (Some 20), [])"
    by code_simp
  show ?thesis
    using bias_absent_readings_agree [where m = store_temps and di = dev0
        and B = dec_builtins and z = 0] a b c d v
    by simp
qed

text \<open>
  C4, as stated, fails on the empty register store: the bias register is absent,
  the biased \<^verbatim>\<open>target_temperature\<close> defaults the setpoint to \<^verbatim>\<open>"0"\<close> and is 0.0, the
  unbiased one has no default and is absent.
\<close>

theorem bias_absent_target_differs:
  "Map.empty (di_prefix dev0 @ ''/0/3/58/0'') = (None :: string option)
   \<and> target_temperature dec_builtins (climate_init dev0) \<lparr>oids = Some Map.empty\<rparr>
       = (Inr (Some 0), [])
   \<and> target_temperature_nobias dec_builtins (climate_nobias_init dev0) \<lparr>oids = Some Map.empty\<rparr>
       = (Inr None, [''Invalid target temperature value for /1/15, setting as None.''])"
  by code_simp

text \<open>
  C8, as the code has it. In the unbiased class, if the setpoint register
  \<^verbatim>\<open>prefix + "/0/1/1/0"\<close> is missing, the lookup without default hands \<^verbatim>\<open>None\<close> to \<^verbatim>\<open>float\<close>,
  which raises \<^verbatim>\<open>TypeError\<close> inside the \<^verbatim>\<open>try\<close> block; the handler lists \<^verbatim>\<open>TypeError\<close>, so
  \<^verbatim>\<open>target_temperature\<close> returns absent and logs one warning. If the register
  \<^verbatim>\<open>prefix + "/0/0/1/0"\<close> is missing, \<^verbatim>\<open>current_temperature\<close> returns \<^verbatim>\<open>float("0")\<close> and logs
  nothing.
\<close>

theorem target_temperature_nobias_missing_register:
  "(m (ent_prefix e @ ''/0/1/1/0'') = None \<longrightarrow>
       py_float B (dict_get m (ent_prefix e @ ''/0/1/1/0'') PNone) = Inl TypeError
     \<and> target_temperature_nobias B e \<lparr>oids = Some m\<rparr> = (Inr None, [msg_target_temperature e]))
   \<and> (m (ent_prefix e @ ''/0/0/1/0'') = None \<and> float_of_str B ''0'' = Some z \<longrightarrow>
       current_temperature_nobias B e \<lparr>oids = Some m\<rparr> = (Inr (Some z), []))"
  by (simp add: target_temperature_nobias_def current_temperature_nobias_def dict_get_def
      py_float_def try_except_def caught_def)

theorem target_temperature_nobias_missing_register_witness:
  "store_mode3_idle (ent_prefix (climate_nobias_init dev0) @ ''/0/1/1/0'') = None
   \<and> store_mode3_idle (ent_prefix (climate_nobias_init dev0) @ ''/0/0/1/0'') = None
   \<and> float_of_str dec_builtins ''0'' = Some 0
   \<and> target_temperature_nobias dec_builtins (climate_nobias_init dev0) \<lparr>oids = Some store_mode3_idle\<rparr>
       = (Inr None, [''Invalid target temperature value for /1/15, setting as None.''])
   \<and> current_temperature_nobias dec_builtins (climate_nobias_init dev0) \<lparr>oids = Some store_mode3_idle\<rparr>
       = (Inr (Some 0), [])"
proof -
  have a: "store_mode3_idle (ent_prefix (climate_nobias_init dev0) @ ''/0/1/1/0'') = None"
    "store_mode3_idle (ent_prefix (climate_nobias_init dev0) @ ''/0/0/1/0'') = None"
    by (simp_all add: store_mode3_idle_def climate_nobias_init_def dev0_def)
  have b: "float_of_str dec_builtins ''0'' = Some 0"
    by code_simp
  have p: "msg_target_temperature (climate_nobias_init dev0)
      = ''Invalid target temperature value for /1/15, setting as None.''"
    by (simp add: msg_target_temperature_def climate_nobias_init_def dev0_def)
  show ?thesis
    using target_temperature_nobias_missing_register
        [of store_mode3_idle "climate_nobias_init dev0" dec_builtins 0] a b p
    by simp
qed

text \<open>
  C8, as stated, fails on the empty register store: \<^verbatim>\<open>target_temperature\<close> of the
  unbiased class returns absent there, it does not raise; and \<^verbatim>\<open>current_temperature\<close>
  returns 0.0, not absent.
\<close>

theorem target_temperature_nobias_missing_is_caught:
  "target_temperature_nobias dec_builtins (climate_nobias_init dev0) \<lparr>oids = Some Map.empty\<rparr>
     = (Inr None, [''Invalid target temperature value for /1/15, setting as None.''])
   \<and> current_temperature_nobias dec_builtins (climate_nobias_init dev0) \<lparr>oids = Some Map.empty\<rparr>
     = (Inr (Some 0), [])"
  by code_simp

end
